theory Spec2Isabelle
  imports Main
begin

section \<open>Data model\<close>

text \<open>
  The values that occur as state labels, as raw values of the state column and as
  arguments of the comparison \<^verbatim>\<open>is_\<close>: Python's \<^verbatim>\<open>None\<close>, booleans and strings.
\<close>

datatype pyval = PyNone | PyBool bool | PyStr string

text \<open>The default source of \<^verbatim>\<open>transition(source="*", ...)\<close>: the wildcard marker.\<close>

definition WILDCARD :: pyval where
  "WILDCARD = PyStr ''*''"

text \<open>Python truthiness, as \<^verbatim>\<open>assert target\<close> reads it.\<close>

fun truthy :: "pyval \<Rightarrow> bool" where
  "truthy PyNone = False"
| "truthy (PyBool b) = b"
| "truthy (PyStr s) = (s \<noteq> [])"

text \<open>
  A column of the mapped table as \<^verbatim>\<open>sqla_inspect(table_class).columns\<close> lists it: the name
  of the attribute under which the class and its records carry it (\<^verbatim>\<open>Column.key\<close>), its
  name in the table (\<^verbatim>\<open>Column.name\<close>, the one the source reads), and whether
  \<^verbatim>\<open>isinstance(col.type, sqltypes.FSMField)\<close> holds. A class attribute
  \<^verbatim>\<open>state = Column(FSMField)\<close> has both names \<^verbatim>\<open>"state"\<close>; the declaration
  \<^verbatim>\<open>state = Column('state_col', FSMField)\<close> has the attribute name \<^verbatim>\<open>"state"\<close> and the
  column name \<^verbatim>\<open>"state_col"\<close>.
\<close>

record column =
  col_key :: string
  col_name :: string
  col_is_fsm :: bool

text \<open>
  A record type (the \<^verbatim>\<open>owner\<close> / \<^verbatim>\<open>table_class\<close> class object): its name, the rest of
  its method resolution order, and its columns. The class attribute
  \<^verbatim>\<open>_sa_fsm_sqlalchemy_handle\<close> is mutable and lives in the world below.
\<close>

record py_class =
  cls_name :: string
  cls_bases :: "string list"
  cls_columns :: "column list"

text \<open>
  Modelled from the spec: \<^verbatim>\<open>FSMMeta\<close> (module \<^verbatim>\<open>meta.py\<close>) is not among the sources.
  Section 3 gives a transition its sources and its target; these are the two attributes
  that \<^verbatim>\<open>register_transition\<close> and \<^verbatim>\<open>__call__\<close> read. \<open>sources\<close> is \<^verbatim>\<open>tuple(meta.sources)\<close>,
  and \<open>meta_id\<close> is the identity of the meta object, one per declaration site.
\<close>

record FSMMeta =
  meta_id :: nat
  sources :: "pyval list"
  target :: pyval

text \<open>
  \<^verbatim>\<open>FSMState\<close> and \<^verbatim>\<open>FSMStateTransition\<close> are never mutated after \<^verbatim>\<open>__init__\<close>, so an
  object is its identity (\<open>st_id\<close>, \<open>tr_id\<close>: fresh at construction) with its fields.
  \<open>parent\<close> is the address of the owning machine.
\<close>

record FSMState =
  st_id :: nat
  st_parent :: nat
  st_value :: pyval

record FSMStateTransition =
  tr_id :: nat
  tr_parent :: nat
  tr_meta :: FSMMeta

text \<open>
  \<^verbatim>\<open>FiniteStateMachine\<close>, the class-bound registry. The \<^verbatim>\<open>access_lock\<close> is held only
  inside \<^verbatim>\<open>register_state\<close> and is free again on return, so a sequential run never
  observes it.
\<close>

record FiniteStateMachine =
  table_class :: string
  fsm_column :: column
  column_name :: string
  states :: "pyval \<rightharpoonup> FSMState"
  transitions :: "FSMStateTransition list"

text \<open>
  The predicate objects of the query layer: \<^verbatim>\<open>column == target\<close> and the predicate's
  own \<^verbatim>\<open>is_(bool)\<close>, both uninterpreted.
\<close>

datatype predicate = ColumnEq column pyval | PredIs predicate bool

datatype setup_reason = NoFSMField | MultipleFSMFields "column list"

datatype error =
    SetupError setup_reason
  | KeyError pyval
  | AttributeError string
  | AssertionError string
  | InvalidSourceStateError FSMState string
  | PreconditionError string

text \<open>
  The world: the store of \<^verbatim>\<open>FiniteStateMachine\<close> objects by address (addresses
  \<open>0 ..< n_machines\<close> are allocated, in order of construction), the next identity for
  state and transition objects, each class's own \<^verbatim>\<open>_sa_fsm_sqlalchemy_handle\<close> entry,
  the attributes of the live records by address, the memo of \<^verbatim>\<open>sql_equality_cache\<close> and
  the warnings emitted so far.
\<close>

record world =
  machines :: "nat \<Rightarrow> FiniteStateMachine"
  n_machines :: nat
  next_id :: nat
  class_dict :: "string \<rightharpoonup> nat"
  instance_attrs :: "nat \<Rightarrow> (string \<rightharpoonup> pyval)"
  equality_cache :: "(column \<times> pyval) \<rightharpoonup> predicate"
  warnings :: "pyval list"

section \<open>state_machine.py\<close>

definition find_fsm_column :: "py_class \<Rightarrow> error + column" where
  "find_fsm_column tc =
     (let fsm_fields = filter col_is_fsm (cls_columns tc) in
      if length fsm_fields = 0 then Inl (SetupError NoFSMField)
      else if length fsm_fields > 1 then Inl (SetupError (MultipleFSMFields fsm_fields))
      else Inr (fsm_fields ! 0))"

text \<open>
  \<^verbatim>\<open>FiniteStateMachine.__init__\<close>: the new machine takes the next address. A machine
  whose \<^verbatim>\<open>__init__\<close> raises is never reachable and takes none.
\<close>

definition FiniteStateMachine_init :: "py_class \<Rightarrow> world \<Rightarrow> (error + nat) \<times> world" where
  "FiniteStateMachine_init tc w =
     (case find_fsm_column tc of
        Inl e \<Rightarrow> (Inl e, w)
      | Inr col \<Rightarrow>
          (Inr (n_machines w),
           w\<lparr>machines := (machines w)(n_machines w :=
                 \<lparr>table_class = cls_name tc, fsm_column = col, column_name = col_name col,
                  states = Map.empty, transitions = []\<rparr>),
             n_machines := Suc (n_machines w)\<rparr>))"

definition get_state :: "nat \<Rightarrow> pyval \<Rightarrow> world \<Rightarrow> error + FSMState" where
  "get_state self label w =
     (case states (machines w self) label of
        None \<Rightarrow> Inl (KeyError label)
      | Some s \<Rightarrow> Inr s)"

text \<open>
  \<^verbatim>\<open>self.states.setdefault(label, FSMState(self, label))\<close>: the default is built before
  \<^verbatim>\<open>setdefault\<close> runs, so every call constructs a state object; it is stored only when
  the label is absent.
\<close>

definition register_state :: "nat \<Rightarrow> pyval \<Rightarrow> world \<Rightarrow> FSMState \<times> world" where
  "register_state self label w =
     (let new_state = \<lparr>st_id = next_id w, st_parent = self, st_value = label\<rparr>;
          w1 = w\<lparr>next_id := Suc (next_id w)\<rparr>;
          fsm = machines w1 self
      in case states fsm label of
           Some s \<Rightarrow> (s, w1)
         | None \<Rightarrow>
             (new_state,
              w1\<lparr>machines := (machines w1)(self := fsm\<lparr>states := (states fsm)(label \<mapsto> new_state)\<rparr>)\<rparr>))"

text \<open>
  The loop of \<^verbatim>\<open>register_transition\<close> over \<^verbatim>\<open>tuple(meta.sources) + (meta.target,)\<close>.
  \<^verbatim>\<open>util.is_valid_literal_state\<close> is not among the sources; it is the parameter
  \<open>is_valid_literal_state\<close>.
\<close>

fun register_literal_states :: "(pyval \<Rightarrow> bool) \<Rightarrow> nat \<Rightarrow> pyval list \<Rightarrow> world \<Rightarrow> world" where
  "register_literal_states is_valid_literal_state self [] w = w"
| "register_literal_states is_valid_literal_state self (a_state # rest) w =
     register_literal_states is_valid_literal_state self rest
       (if is_valid_literal_state a_state then snd (register_state self a_state w) else w)"

definition register_transition ::
  "(pyval \<Rightarrow> bool) \<Rightarrow> nat \<Rightarrow> FSMMeta \<Rightarrow> world \<Rightarrow> FSMStateTransition \<times> world" where
  "register_transition is_valid_literal_state self meta w =
     (let transition = \<lparr>tr_id = next_id w, tr_parent = self, tr_meta = meta\<rparr>;
          w1 = w\<lparr>next_id := Suc (next_id w)\<rparr>;
          w2 = register_literal_states is_valid_literal_state self (sources meta @ [target meta]) w1;
          fsm = machines w2 self
      in (transition,
          w2\<lparr>machines := (machines w2)(self := fsm\<lparr>transitions := transitions fsm @ [transition]\<rparr>)\<rparr>))"

text \<open>\<^verbatim>\<open>InstanceBoundStateMachine\<close>: the class-bound machine and one live record.\<close>

record InstanceBoundStateMachine =
  cls_fsm :: nat
  bound_instance :: nat

definition current_raw_value :: "InstanceBoundStateMachine \<Rightarrow> world \<Rightarrow> error + pyval" where
  "current_raw_value self w =
     (let name = column_name (machines w (cls_fsm self)) in
      case instance_attrs w (bound_instance self) name of
        None \<Rightarrow> Inl (AttributeError name)
      | Some v \<Rightarrow> Inr v)"

definition current_state :: "InstanceBoundStateMachine \<Rightarrow> world \<Rightarrow> error + FSMState" where
  "current_state self w =
     (case current_raw_value self w of
        Inl e \<Rightarrow> Inl e
      | Inr raw \<Rightarrow> get_state (cls_fsm self) raw w)"

section \<open>transition.py\<close>

text \<open>The body of \<^verbatim>\<open>sql_equality_cache\<close>: it asserts the target and builds the equality.\<close>

definition sql_equality_cache :: "column \<times> pyval \<Rightarrow> error + predicate" where
  "sql_equality_cache key =
     (case key of (column, target_label) \<Rightarrow>
        if \<not> truthy target_label then Inl (AssertionError ''Target must be defined.'')
        else Inr (ColumnEq column target_label))"

text \<open>
  Modelled from the spec: \<^verbatim>\<open>cache.dict_cache\<close> and its \<^verbatim>\<open>get_value\<close> (module \<^verbatim>\<open>cache.py\<close>)
  are not among the sources. Section 4.6: \<^verbatim>\<open>getValue(key)\<close> is memoized by the composite key
  and computed once per distinct key.
\<close>

definition sql_equality_cache_get_value ::
  "column \<times> pyval \<Rightarrow> world \<Rightarrow> (error + predicate) \<times> world" where
  "sql_equality_cache_get_value key w =
     (case equality_cache w key of
        Some p \<Rightarrow> (Inr p, w)
      | None \<Rightarrow>
          (case sql_equality_cache key of
             Inl e \<Rightarrow> (Inl e, w)
           | Inr p \<Rightarrow> (Inr p, w\<lparr>equality_cache := (equality_cache w)(key \<mapsto> p)\<rparr>)))"

text \<open>
  \<^verbatim>\<open>ClassBoundFsmTransition\<close>. Its \<^verbatim>\<open>__slots__\<close> are \<^verbatim>\<open>_sa_fsm_owner_cls\<close>,
  \<^verbatim>\<open>state_machine\<close> and \<^verbatim>\<open>transition\<close>, the three attributes \<^verbatim>\<open>__init__\<close> assigns.
  \<^verbatim>\<open>__call__\<close> reads \<^verbatim>\<open>_sa_fsm_sqla_handle\<close> and \<^verbatim>\<open>_sa_fsm_meta\<close>, which are neither slots
  nor attributes of the class or of its bases; the base \<^verbatim>\<open>BoundTransitionABC\<close> declares no
  \<^verbatim>\<open>__slots__\<close>, so an object has a \<^verbatim>\<open>__dict__\<close> that may hold them. The last two fields
  are those two entries of the \<^verbatim>\<open>__dict__\<close>: \<open>None\<close> when the attribute is absent, and
  then reading it raises \<^verbatim>\<open>AttributeError\<close>.
\<close>

record ClassBoundFsmTransition =
  cb_sa_fsm_owner_cls :: string
  cb_state_machine :: nat
  cb_transition :: FSMStateTransition
  cb_sa_fsm_sqla_handle :: "nat option"
  cb_sa_fsm_meta :: "FSMMeta option"

definition ClassBoundFsmTransition_init ::
  "nat \<Rightarrow> FSMStateTransition \<Rightarrow> string \<Rightarrow> ClassBoundFsmTransition" where
  "ClassBoundFsmTransition_init state_machine transition owner_cls =
     \<lparr>cb_sa_fsm_owner_cls = owner_cls, cb_state_machine = state_machine,
      cb_transition = transition, cb_sa_fsm_sqla_handle = None, cb_sa_fsm_meta = None\<rparr>"

definition ClassBoundFsmTransition_call ::
  "ClassBoundFsmTransition \<Rightarrow> world \<Rightarrow> (error + predicate) \<times> world" where
  "ClassBoundFsmTransition_call self w =
     (case cb_sa_fsm_sqla_handle self of
        None \<Rightarrow> (Inl (AttributeError ''_sa_fsm_sqla_handle''), w)
      | Some handle \<Rightarrow>
          (let column = fsm_column (machines w handle) in
           case cb_sa_fsm_meta self of
             None \<Rightarrow> (Inl (AttributeError ''_sa_fsm_meta''), w)
           | Some meta \<Rightarrow> sql_equality_cache_get_value (column, target meta) w))"

text \<open>
  \<^verbatim>\<open>is_\<close> returns either what the predicate's own \<^verbatim>\<open>is_\<close> returns or the plain
  \<^verbatim>\<open>False\<close>; the warning carries the offending argument.
\<close>

datatype is_out = OutPredicate predicate | OutBool bool

definition ClassBoundFsmTransition_is ::
  "ClassBoundFsmTransition \<Rightarrow> pyval \<Rightarrow> world \<Rightarrow> (error + is_out) \<times> world" where
  "ClassBoundFsmTransition_is self v w =
     (case v of
        PyBool b \<Rightarrow>
          (case ClassBoundFsmTransition_call self w of
             (Inl e, w1) \<Rightarrow> (Inl e, w1)
           | (Inr p, w1) \<Rightarrow> (Inr (OutPredicate (PredIs p b)), w1))
      | _ \<Rightarrow> (Inr (OutBool False), w\<lparr>warnings := warnings w @ [v]\<rparr>))"

text \<open>
  Positional and keyword arguments of a call, passed through unchanged.
\<close>

type_synonym call_args = "pyval list \<times> (string \<times> pyval) list"

text \<open>
  Modelled from the spec: the bound-meta classes (\<^verbatim>\<open>bound.BoundFSMFunction\<close>,
  \<^verbatim>\<open>bound.BoundFSMClass\<close>, module \<^verbatim>\<open>bound.py\<close>) are not among the sources. An object of
  them is the methods that \<^verbatim>\<open>set\<close> and \<^verbatim>\<open>can_proceed\<close> call on it. Section 4.4: the two
  checks are predicates without side effects; \<^verbatim>\<open>to_next_state\<close> runs the handler, which
  may write the record and returns a result or raises.
\<close>

record bound_meta =
  transition_possible :: "world \<Rightarrow> bool"
  conditions_met :: "call_args \<Rightarrow> world \<Rightarrow> bool"
  to_next_state :: "call_args \<Rightarrow> world \<Rightarrow> (error + pyval) \<times> world"
  bm_current_state :: "world \<Rightarrow> error + FSMState"

text \<open>A Python function object, of which \<^verbatim>\<open>set\<close> reads the \<^verbatim>\<open>__name__\<close>.\<close>

record py_function =
  fn_name :: string

text \<open>
  \<^verbatim>\<open>InstanceBoundFsmTransition\<close>. Its \<^verbatim>\<open>__slots__\<close> are those of the class-bound view and
  \<^verbatim>\<open>_sa_fsm_self\<close>, the four attributes \<^verbatim>\<open>__init__\<close> assigns. \<^verbatim>\<open>set\<close> and \<^verbatim>\<open>can_proceed\<close>
  read \<^verbatim>\<open>_sa_fsm_bound_meta\<close> and \<^verbatim>\<open>_sa_fsm_transition_fn\<close>; as above, the last two
  fields are these entries of the \<^verbatim>\<open>__dict__\<close>.
\<close>

record InstanceBoundFsmTransition =
  ib_state_machine :: InstanceBoundStateMachine
  ib_transition :: FSMStateTransition
  ib_sa_fsm_owner_cls :: string
  ib_sa_fsm_self :: nat
  ib_sa_fsm_bound_meta :: "bound_meta option"
  ib_sa_fsm_transition_fn :: "py_function option"

definition InstanceBoundFsmTransition_init ::
  "nat \<Rightarrow> FSMStateTransition \<Rightarrow> string \<Rightarrow> nat \<Rightarrow> InstanceBoundFsmTransition" where
  "InstanceBoundFsmTransition_init cls_state_machine transition owner_cls inst =
     \<lparr>ib_state_machine = \<lparr>cls_fsm = cls_state_machine, bound_instance = inst\<rparr>,
      ib_transition = transition, ib_sa_fsm_owner_cls = owner_cls, ib_sa_fsm_self = inst,
      ib_sa_fsm_bound_meta = None, ib_sa_fsm_transition_fn = None\<rparr>"

definition InstanceBoundFsmTransition_set ::
  "InstanceBoundFsmTransition \<Rightarrow> call_args \<Rightarrow> world \<Rightarrow> (error + pyval) \<times> world" where
  "InstanceBoundFsmTransition_set self args w =
     (case ib_sa_fsm_bound_meta self of
        None \<Rightarrow> (Inl (AttributeError ''_sa_fsm_bound_meta''), w)
      | Some bound_meta \<Rightarrow>
          (case ib_sa_fsm_transition_fn self of
             None \<Rightarrow> (Inl (AttributeError ''_sa_fsm_transition_fn''), w)
           | Some func \<Rightarrow>
               if \<not> transition_possible bound_meta w then
                 (case bm_current_state bound_meta w of
                    Inl e \<Rightarrow> (Inl e, w)
                  | Inr cur \<Rightarrow> (Inl (InvalidSourceStateError cur (fn_name func)), w))
               else if \<not> conditions_met bound_meta args w then
                 (Inl (PreconditionError ''Preconditions are not satisfied.''), w)
               else to_next_state bound_meta args w))"

definition InstanceBoundFsmTransition_can_proceed ::
  "InstanceBoundFsmTransition \<Rightarrow> call_args \<Rightarrow> world \<Rightarrow> error + bool" where
  "InstanceBoundFsmTransition_can_proceed self args w =
     (case ib_sa_fsm_bound_meta self of
        None \<Rightarrow> Inl (AttributeError ''_sa_fsm_bound_meta'')
      | Some bound_meta \<Rightarrow>
          Inr (transition_possible bound_meta w \<and> conditions_met bound_meta args w))"

text \<open>
  \<^verbatim>\<open>owner._sa_fsm_sqlalchemy_handle\<close>: attribute lookup on a class walks its method
  resolution order and takes the first class whose own dictionary has the entry.
\<close>

fun getattr_sa_fsm_sqlalchemy_handle :: "(string \<rightharpoonup> nat) \<Rightarrow> string list \<Rightarrow> nat option" where
  "getattr_sa_fsm_sqlalchemy_handle d [] = None"
| "getattr_sa_fsm_sqlalchemy_handle d (c # cs) =
     (case d c of Some root \<Rightarrow> Some root | None \<Rightarrow> getattr_sa_fsm_sqlalchemy_handle d cs)"

datatype bound_transition =
    ClassBound ClassBoundFsmTransition
  | InstanceBound InstanceBoundFsmTransition

text \<open>
  The \<^verbatim>\<open>try\<close> / \<^verbatim>\<open>except AttributeError\<close> of \<^verbatim>\<open>FsmTransition.__get__\<close>: the machine found on
  the owner, or a new one that is then stored on the owner itself.
\<close>

definition fsm_machine_root_of :: "py_class \<Rightarrow> world \<Rightarrow> (error + nat) \<times> world" where
  "fsm_machine_root_of owner w =
     (case getattr_sa_fsm_sqlalchemy_handle (class_dict w) (cls_name owner # cls_bases owner) of
        Some root \<Rightarrow> (Inr root, w)
      | None \<Rightarrow>
          (case FiniteStateMachine_init owner w of
             (Inl e, w1) \<Rightarrow> (Inl e, w1)
           | (Inr root, w1) \<Rightarrow>
               (Inr root, w1\<lparr>class_dict := (class_dict w1)(cls_name owner \<mapsto> root)\<rparr>)))"

text \<open>
  \<^verbatim>\<open>FsmTransition.__get__(self, instance, owner)\<close>, with \<open>self_meta\<close> for \<^verbatim>\<open>self.meta\<close> and
  \<open>None\<close> for an access on the type itself.
\<close>

definition FsmTransition_get ::
  "(pyval \<Rightarrow> bool) \<Rightarrow> FSMMeta \<Rightarrow> nat option \<Rightarrow> py_class \<Rightarrow> world
     \<Rightarrow> (error + bound_transition) \<times> world" where
  "FsmTransition_get is_valid_literal_state self_meta inst owner w =
     (case fsm_machine_root_of owner w of
        (Inl e, w1) \<Rightarrow> (Inl e, w1)
      | (Inr fsm_machine_root, w1) \<Rightarrow>
          (case register_transition is_valid_literal_state fsm_machine_root self_meta w1 of
             (fsm_transition, w2) \<Rightarrow>
               (Inr (case inst of
                       None \<Rightarrow>
                         ClassBound
                           (ClassBoundFsmTransition_init fsm_machine_root fsm_transition (cls_name owner))
                     | Some i \<Rightarrow>
                         InstanceBound
                           (InstanceBoundFsmTransition_init fsm_machine_root fsm_transition
                              (cls_name owner) i)),
                w2)))"

text \<open>The registry and the transition object that a bound view holds.\<close>

fun view_registry :: "bound_transition \<Rightarrow> nat" where
  "view_registry (ClassBound v) = cb_state_machine v"
| "view_registry (InstanceBound v) = cls_fsm (ib_state_machine v)"

fun view_transition :: "bound_transition \<Rightarrow> FSMStateTransition" where
  "view_transition (ClassBound v) = cb_transition v"
| "view_transition (InstanceBound v) = ib_transition v"

section \<open>Runs of the program\<close>

text \<open>
  The calls that reach a registry: the two registration methods on a machine and the
  access of an annotated attribute, on a type or on a record of it. A run performs them
  in order; an access that raises leaves the world as its raise left it.
\<close>

datatype world_op =
    CallRegisterState nat pyval
  | CallRegisterTransition nat FSMMeta
  | Access FSMMeta "nat option" py_class

fun run_op :: "(pyval \<Rightarrow> bool) \<Rightarrow> world_op \<Rightarrow> world \<Rightarrow> world" where
  "run_op lit (CallRegisterState self label) w = snd (register_state self label w)"
| "run_op lit (CallRegisterTransition self meta) w = snd (register_transition lit self meta w)"
| "run_op lit (Access self_meta inst owner) w = snd (FsmTransition_get lit self_meta inst owner w)"

fun run_ops :: "(pyval \<Rightarrow> bool) \<Rightarrow> world_op list \<Rightarrow> world \<Rightarrow> world" where
  "run_ops lit [] w = w"
| "run_ops lit (op # ops) w = run_ops lit ops (run_op lit op w)"

text \<open>The class's registry as attribute lookup finds it, and its transition list.\<close>

definition registry_transitions :: "py_class \<Rightarrow> world \<Rightarrow> FSMStateTransition list" where
  "registry_transitions owner w =
     (case getattr_sa_fsm_sqlalchemy_handle (class_dict w) (cls_name owner # cls_bases owner) of
        None \<Rightarrow> []
      | Some root \<Rightarrow> transitions (machines w root))"

text \<open>Repeated accesses of one declaration on one type, once per entry of \<open>insts\<close>.\<close>

fun repeat_access ::
  "(pyval \<Rightarrow> bool) \<Rightarrow> FSMMeta \<Rightarrow> py_class \<Rightarrow> nat option list \<Rightarrow> world \<Rightarrow> world" where
  "repeat_access lit self_meta owner [] w = w"
| "repeat_access lit self_meta owner (inst # insts) w =
     repeat_access lit self_meta owner insts (snd (FsmTransition_get lit self_meta inst owner w))"

section \<open>Sequences of registrations\<close>

text \<open>A run of \<^verbatim>\<open>register_state\<close> calls on one machine, in order.\<close>

fun register_state_calls :: "nat \<Rightarrow> pyval list \<Rightarrow> world \<Rightarrow> world" where
  "register_state_calls self [] w = w"
| "register_state_calls self (label # labels) w =
     register_state_calls self labels (snd (register_state self label w))"

text \<open>
  The two registration methods as calls on one machine, the run of a list of them, and the
  labels that the run hands to \<^verbatim>\<open>register_state\<close>.
\<close>

datatype registry_call = RegisterState pyval | RegisterTransition FSMMeta

fun run_registry_call :: "(pyval \<Rightarrow> bool) \<Rightarrow> nat \<Rightarrow> registry_call \<Rightarrow> world \<Rightarrow> world" where
  "run_registry_call lit self (RegisterState label) w = snd (register_state self label w)"
| "run_registry_call lit self (RegisterTransition meta) w = snd (register_transition lit self meta w)"

fun run_registry_calls :: "(pyval \<Rightarrow> bool) \<Rightarrow> nat \<Rightarrow> registry_call list \<Rightarrow> world \<Rightarrow> world" where
  "run_registry_calls lit self [] w = w"
| "run_registry_calls lit self (c # cs) w =
     run_registry_calls lit self cs (run_registry_call lit self c w)"

fun registered_labels :: "(pyval \<Rightarrow> bool) \<Rightarrow> registry_call list \<Rightarrow> pyval list" where
  "registered_labels lit [] = []"
| "registered_labels lit (RegisterState label # cs) = label # registered_labels lit cs"
| "registered_labels lit (RegisterTransition meta # cs) =
     filter lit (sources meta @ [target meta]) @ registered_labels lit cs"

text \<open>Every state object sits under its own label.\<close>

definition keyed_by_label :: "(pyval \<rightharpoonup> FSMState) \<Rightarrow> bool" where
  "keyed_by_label m = (\<forall>k s. m k = Some s \<longrightarrow> st_value s = k)"

section \<open>Example programs\<close>

text \<open>
  Modelled from the spec: \<^verbatim>\<open>util.is_valid_literal_state\<close> (module \<^verbatim>\<open>util.py\<close>) is not among
  the sources. Section 4.2 registers "every literal state referenced by the transition's
  sources (excluding the wildcard marker) and by its target"; a literal state is taken to be
  a non-empty string other than the wildcard. It instantiates the parameter of
  \<open>register_transition\<close> in the examples only.
\<close>

definition spec_is_valid_literal_state :: "pyval \<Rightarrow> bool" where
  "spec_is_valid_literal_state v =
     (case v of PyStr s \<Rightarrow> s \<noteq> [] \<and> s \<noteq> ''*'' | _ \<Rightarrow> False)"

text \<open>
  The world before any annotated attribute is touched, and the same with two live records
  (addresses 1 and 2) whose state attribute holds \<^verbatim>\<open>"draft"\<close> and \<^verbatim>\<open>"archived"\<close>.
\<close>

definition blank_machine :: FiniteStateMachine where
  "blank_machine =
     \<lparr>table_class = [], fsm_column = \<lparr>col_key = [], col_name = [], col_is_fsm = False\<rparr>, column_name = [],
      states = Map.empty, transitions = []\<rparr>"

definition empty_world :: world where
  "empty_world =
     \<lparr>machines = (\<lambda>_. blank_machine), n_machines = 0, next_id = 0, class_dict = Map.empty,
      instance_attrs = (\<lambda>_. Map.empty), equality_cache = Map.empty, warnings = []\<rparr>"

definition example_world :: world where
  "example_world =
     empty_world\<lparr>instance_attrs :=
       (\<lambda>_. Map.empty)(1 := [''state'' \<mapsto> PyStr ''draft''], 2 := [''state'' \<mapsto> PyStr ''archived''])\<rparr>"

text \<open>
  Three record types: one with a single \<^verbatim>\<open>FSMField\<close> column, one with none, one with two;
  and two declarations, \<^verbatim>\<open>@transition(source=["draft", "review"], target="published")\<close>
  and \<^verbatim>\<open>@transition(target="archived")\<close>.
\<close>

definition title_column :: column where
  "title_column = \<lparr>col_key = ''title'', col_name = ''title'', col_is_fsm = False\<rparr>"

definition state_column :: column where
  "state_column = \<lparr>col_key = ''state'', col_name = ''state'', col_is_fsm = True\<rparr>"

definition status_column :: column where
  "status_column = \<lparr>col_key = ''status'', col_name = ''status'', col_is_fsm = True\<rparr>"

definition Document :: py_class where
  "Document = \<lparr>cls_name = ''Document'', cls_bases = [], cls_columns = [title_column, state_column]\<rparr>"

definition Plain :: py_class where
  "Plain = \<lparr>cls_name = ''Plain'', cls_bases = [], cls_columns = [title_column]\<rparr>"

definition TwoFields :: py_class where
  "TwoFields = \<lparr>cls_name = ''TwoFields'', cls_bases = [], cls_columns = [state_column, status_column]\<rparr>"

text \<open>
  \<open>Ticket\<close> declares \<^verbatim>\<open>state = Column('state_col', FSMField)\<close>. \<open>Report\<close> is a subclass of
  \<open>Document\<close>, so \<open>Document\<close> follows it in its method resolution order.
\<close>

definition renamed_state_column :: column where
  "renamed_state_column = \<lparr>col_key = ''state'', col_name = ''state_col'', col_is_fsm = True\<rparr>"

definition Ticket :: py_class where
  "Ticket = \<lparr>cls_name = ''Ticket'', cls_bases = [], cls_columns = [title_column, renamed_state_column]\<rparr>"

definition Report :: py_class where
  "Report = \<lparr>cls_name = ''Report'', cls_bases = [''Document''],
              cls_columns = [title_column, state_column]\<rparr>"

definition publish_meta :: FSMMeta where
  "publish_meta = \<lparr>meta_id = 0, sources = [PyStr ''draft'', PyStr ''review''], target = PyStr ''published''\<rparr>"

definition archive_meta :: FSMMeta where
  "archive_meta = \<lparr>meta_id = 1, sources = [WILDCARD], target = PyStr ''archived''\<rparr>"

text \<open>The world after \<^verbatim>\<open>Document.publish\<close> has been accessed once on the type.\<close>

definition document_world :: world where
  "document_world =
     snd (FsmTransition_get spec_is_valid_literal_state publish_meta None Document empty_world)"

section \<open>Effects of the registration methods\<close>

lemma register_state_frame:
  "n_machines (snd (register_state self l w)) = n_machines w"
  "class_dict (snd (register_state self l w)) = class_dict w"
  "instance_attrs (snd (register_state self l w)) = instance_attrs w"
  "next_id (snd (register_state self l w)) = Suc (next_id w)"
  by (simp_all add: register_state_def Let_def split: option.split)

lemma register_state_fields:
  "column_name (machines (snd (register_state self l w)) r) = column_name (machines w r)"
  "fsm_column (machines (snd (register_state self l w)) r) = fsm_column (machines w r)"
  "table_class (machines (snd (register_state self l w)) r) = table_class (machines w r)"
  "transitions (machines (snd (register_state self l w)) r) = transitions (machines w r)"
  by (simp_all add: register_state_def Let_def split: option.split)

lemma register_state_states:
  "states (machines (snd (register_state self l w)) r) =
     (if r = self \<and> states (machines w self) l = None
      then (states (machines w self))(l \<mapsto> \<lparr>st_id = next_id w, st_parent = self, st_value = l\<rparr>)
      else states (machines w r))"
  by (simp add: register_state_def Let_def split: option.split)

lemma register_state_result:
  "fst (register_state self l w) =
     (case states (machines w self) l of
        Some s \<Rightarrow> s
      | None \<Rightarrow> \<lparr>st_id = next_id w, st_parent = self, st_value = l\<rparr>)"
  by (simp add: register_state_def Let_def split: option.split)

lemma register_state_dom:
  "dom (states (machines (snd (register_state self l w)) r)) =
     (if r = self then insert l (dom (states (machines w r))) else dom (states (machines w r)))"
  by (auto simp: register_state_states split: if_splits)

lemma register_literal_states_frame:
  "n_machines (register_literal_states lit self ls w) = n_machines w"
  "class_dict (register_literal_states lit self ls w) = class_dict w"
  "instance_attrs (register_literal_states lit self ls w) = instance_attrs w"
  by (induction ls arbitrary: w) (simp_all add: register_state_frame)

lemma register_literal_states_fields:
  "column_name (machines (register_literal_states lit self ls w) r) = column_name (machines w r)"
  "fsm_column (machines (register_literal_states lit self ls w) r) = fsm_column (machines w r)"
  "table_class (machines (register_literal_states lit self ls w) r) = table_class (machines w r)"
  "transitions (machines (register_literal_states lit self ls w) r) = transitions (machines w r)"
  by (induction ls arbitrary: w) (simp_all add: register_state_fields)

lemma register_literal_states_dom:
  "dom (states (machines (register_literal_states lit self ls w) r)) =
     (if r = self then dom (states (machines w r)) \<union> {a \<in> set ls. lit a}
      else dom (states (machines w r)))"
  by (induction ls arbitrary: w) (auto simp: register_state_dom)

lemma register_transition_frame:
  "n_machines (snd (register_transition lit self m w)) = n_machines w"
  "class_dict (snd (register_transition lit self m w)) = class_dict w"
  "instance_attrs (snd (register_transition lit self m w)) = instance_attrs w"
  by (simp_all add: register_transition_def Let_def register_literal_states_frame)

lemma register_transition_fields:
  "column_name (machines (snd (register_transition lit self m w)) r) = column_name (machines w r)"
  "fsm_column (machines (snd (register_transition lit self m w)) r) = fsm_column (machines w r)"
  "table_class (machines (snd (register_transition lit self m w)) r) = table_class (machines w r)"
  by (simp_all add: register_transition_def Let_def register_literal_states_fields)

lemma register_transition_result:
  "fst (register_transition lit self m w) = \<lparr>tr_id = next_id w, tr_parent = self, tr_meta = m\<rparr>"
  by (simp add: register_transition_def Let_def)

lemma register_transition_transitions:
  "transitions (machines (snd (register_transition lit self m w)) r) =
     (if r = self then transitions (machines w r) @ [\<lparr>tr_id = next_id w, tr_parent = self, tr_meta = m\<rparr>]
      else transitions (machines w r))"
  by (simp add: register_transition_def Let_def register_literal_states_fields)

lemma register_transition_dom:
  "dom (states (machines (snd (register_transition lit self m w)) r)) =
     (if r = self then dom (states (machines w r)) \<union> {a \<in> set (sources m @ [target m]). lit a}
      else dom (states (machines w r)))"
  by (simp add: register_transition_def Let_def register_literal_states_dom)

lemma register_transition_states:
  "states (machines (snd (register_transition lit self m w)) r) =
   states (machines (register_literal_states lit self (sources m @ [target m])
                       (w\<lparr>next_id := Suc (next_id w)\<rparr>)) r)"
  by (simp add: register_transition_def Let_def)

section \<open>State objects stay under their labels\<close>

lemma keyed_by_label_empty: "keyed_by_label Map.empty"
  by (simp add: keyed_by_label_def)

lemma keyed_by_label_unique:
  assumes "keyed_by_label m" "s1 \<in> ran m" "s2 \<in> ran m" "st_value s1 = st_value s2"
  shows "s1 = s2"
proof -
  from assms(2) obtain k1 where k1: "m k1 = Some s1" by (auto simp: ran_def)
  from assms(3) obtain k2 where k2: "m k2 = Some s2" by (auto simp: ran_def)
  from assms(1) k1 k2 have "st_value s1 = k1" "st_value s2 = k2"
    by (auto simp: keyed_by_label_def)
  with assms(4) k1 k2 show ?thesis by simp
qed

lemma register_state_keyed:
  assumes "keyed_by_label (states (machines w r))"
  shows "keyed_by_label (states (machines (snd (register_state self l w)) r))"
  using assms by (auto simp: register_state_states keyed_by_label_def)

lemma register_state_calls_keyed:
  "keyed_by_label (states (machines w r))
   \<Longrightarrow> keyed_by_label (states (machines (register_state_calls self ls w) r))"
  by (induction ls arbitrary: w) (simp_all add: register_state_keyed)

lemma register_literal_states_keyed:
  "keyed_by_label (states (machines w r))
   \<Longrightarrow> keyed_by_label (states (machines (register_literal_states lit self ls w) r))"
  by (induction ls arbitrary: w) (simp_all add: register_state_keyed)

lemma register_transition_keyed:
  assumes "keyed_by_label (states (machines w r))"
  shows "keyed_by_label (states (machines (snd (register_transition lit self m w)) r))"
  unfolding register_transition_states
  by (rule register_literal_states_keyed) (use assms in simp)

lemma run_registry_calls_keyed:
  "keyed_by_label (states (machines w r))
   \<Longrightarrow> keyed_by_label (states (machines (run_registry_calls lit self cs w) r))"
proof (induction cs arbitrary: w)
  case Nil
  then show ?case by simp
next
  case (Cons c cs)
  have "keyed_by_label (states (machines (run_registry_call lit self c w) r))"
    using Cons.prems by (cases c) (simp_all add: register_state_keyed register_transition_keyed)
  from Cons.IH [OF this] show ?case by simp
qed

lemma run_registry_calls_dom:
  "dom (states (machines (run_registry_calls lit self cs w) self))
     = dom (states (machines w self)) \<union> set (registered_labels lit cs)"
proof (induction cs arbitrary: w)
  case Nil
  show ?case by simp
next
  case (Cons c cs)
  show ?case
  proof (cases c)
    case (RegisterState l)
    with Cons.IH [of "snd (register_state self l w)"] show ?thesis
      by (simp add: register_state_dom)
  next
    case (RegisterTransition m)
    with Cons.IH [of "snd (register_transition lit self m w)"] show ?thesis
      by (auto simp: register_transition_dom)
  qed
qed

section \<open>Effects of an attribute access\<close>

lemma getattr_own:
  "d c = Some root \<Longrightarrow> getattr_sa_fsm_sqlalchemy_handle d (c # cs) = Some root"
  by simp

lemma getattr_none_own:
  "getattr_sa_fsm_sqlalchemy_handle d (c # cs) = None \<Longrightarrow> d c = None"
  by (simp split: option.splits)

lemma find_fsm_column_single:
  "filter col_is_fsm (cls_columns tc) = [c] \<Longrightarrow> find_fsm_column tc = Inr c"
  by (simp add: find_fsm_column_def)

lemma length_one_single: "length xs = Suc 0 \<Longrightarrow> \<exists>x. xs = [x]"
  by (cases xs) auto

lemma fsm_machine_root_of_found:
  "getattr_sa_fsm_sqlalchemy_handle (class_dict w) (cls_name owner # cls_bases owner) = Some root
   \<Longrightarrow> fsm_machine_root_of owner w = (Inr root, w)"
  by (simp add: fsm_machine_root_of_def)

lemma fsm_machine_root_of_new:
  assumes "getattr_sa_fsm_sqlalchemy_handle (class_dict w) (cls_name owner # cls_bases owner) = None"
      and "find_fsm_column owner = Inr col"
  shows "fsm_machine_root_of owner w =
           (Inr (n_machines w),
            w\<lparr>machines := (machines w)(n_machines w :=
                  \<lparr>table_class = cls_name owner, fsm_column = col, column_name = col_name col,
                   states = Map.empty, transitions = []\<rparr>),
              n_machines := Suc (n_machines w),
              class_dict := (class_dict w)(cls_name owner \<mapsto> n_machines w)\<rparr>)"
  using assms by (simp add: fsm_machine_root_of_def FiniteStateMachine_init_def)

lemma fsm_machine_root_of_error:
  assumes "getattr_sa_fsm_sqlalchemy_handle (class_dict w) (cls_name owner # cls_bases owner) = None"
      and "find_fsm_column owner = Inl e"
  shows "fsm_machine_root_of owner w = (Inl e, w)"
  using assms by (simp add: fsm_machine_root_of_def FiniteStateMachine_init_def)

lemma FsmTransition_get_ok:
  assumes "fsm_machine_root_of owner w = (Inr root, w1)"
  shows "\<exists>view. FsmTransition_get lit m inst owner w =
                   (Inr view, snd (register_transition lit root m w1))
               \<and> view_registry view = root
               \<and> view_transition view = \<lparr>tr_id = next_id w1, tr_parent = root, tr_meta = m\<rparr>"
proof -
  obtain t w2 where rt: "register_transition lit root m w1 = (t, w2)"
    by (cases "register_transition lit root m w1")
  have t: "t = \<lparr>tr_id = next_id w1, tr_parent = root, tr_meta = m\<rparr>"
    using register_transition_result [of lit root m w1] rt by simp
  show ?thesis
  proof (cases inst)
    case None
    then show ?thesis
      using assms rt t
      by (simp add: FsmTransition_get_def ClassBoundFsmTransition_init_def)
  next
    case (Some i)
    then show ?thesis
      using assms rt t
      by (simp add: FsmTransition_get_def InstanceBoundFsmTransition_init_def)
  qed
qed

lemma FsmTransition_get_error:
  assumes "fsm_machine_root_of owner w = (Inl e, w1)"
  shows "FsmTransition_get lit m inst owner w = (Inl e, w1)"
  using assms by (simp add: FsmTransition_get_def)

text \<open>
  With no registry to be found and not exactly one \<^verbatim>\<open>FSMField\<close> column, an access raises
  \<^verbatim>\<open>SetupError\<close> and leaves the world as it was.
\<close>

lemma access_without_registry_raises:
  assumes "getattr_sa_fsm_sqlalchemy_handle (class_dict w) (cls_name owner # cls_bases owner) = None"
      and "length (filter col_is_fsm (cls_columns owner)) \<noteq> 1"
  shows "\<exists>r. FsmTransition_get lit m inst owner w = (Inl (SetupError r), w)"
proof -
  from assms(2) obtain r where "find_fsm_column owner = Inl (SetupError r)"
    by (cases "filter col_is_fsm (cls_columns owner)")
       (auto simp: find_fsm_column_def Let_def)
  from FsmTransition_get_error [OF fsm_machine_root_of_error [OF assms(1) this]]
  show ?thesis by blast
qed

lemma FsmTransition_get_cases:
  obtains
    (found) root where
      "getattr_sa_fsm_sqlalchemy_handle (class_dict w) (cls_name owner # cls_bases owner) = Some root"
      "snd (FsmTransition_get lit m inst owner w) = snd (register_transition lit root m w)"
  | (new) col where
      "getattr_sa_fsm_sqlalchemy_handle (class_dict w) (cls_name owner # cls_bases owner) = None"
      "find_fsm_column owner = Inr col"
      "snd (FsmTransition_get lit m inst owner w) =
         snd (register_transition lit (n_machines w) m
           (w\<lparr>machines := (machines w)(n_machines w :=
                  \<lparr>table_class = cls_name owner, fsm_column = col, column_name = col_name col,
                   states = Map.empty, transitions = []\<rparr>),
              n_machines := Suc (n_machines w),
              class_dict := (class_dict w)(cls_name owner \<mapsto> n_machines w)\<rparr>))"
  | (failed) e where
      "getattr_sa_fsm_sqlalchemy_handle (class_dict w) (cls_name owner # cls_bases owner) = None"
      "find_fsm_column owner = Inl e"
      "FsmTransition_get lit m inst owner w = (Inl e, w)"
proof (cases "getattr_sa_fsm_sqlalchemy_handle (class_dict w) (cls_name owner # cls_bases owner)")
  case (Some root)
  from FsmTransition_get_ok [OF fsm_machine_root_of_found [OF Some], of lit m inst]
  have "snd (FsmTransition_get lit m inst owner w) = snd (register_transition lit root m w)"
    by auto
  with Some show ?thesis by (rule found)
next
  case None
  show ?thesis
  proof (cases "find_fsm_column owner")
    case (Inl e)
    show ?thesis
      by (rule failed [OF None Inl FsmTransition_get_error [OF fsm_machine_root_of_error [OF None Inl]]])
  next
    case (Inr col)
    from FsmTransition_get_ok [OF fsm_machine_root_of_new [OF None Inr], of lit m inst]
    show ?thesis using None Inr by (auto intro: new)
  qed
qed

lemma FsmTransition_get_class_dict:
  assumes "class_dict w c = Some r"
  shows "class_dict (snd (FsmTransition_get lit m inst owner w)) c = Some r"
proof (cases rule: FsmTransition_get_cases [of w owner lit m inst])
  case (found root)
  then show ?thesis using assms by (simp add: register_transition_frame)
next
  case (new col)
  from new(1) have "class_dict w (cls_name owner) = None"
    by (rule getattr_none_own)
  with assms have "c \<noteq> cls_name owner" by auto
  with new(3) assms show ?thesis by (simp add: register_transition_frame)
next
  case (failed e)
  then show ?thesis using assms by simp
qed

lemma FsmTransition_get_n_machines:
  "n_machines w \<le> n_machines (snd (FsmTransition_get lit m inst owner w))"
  by (cases rule: FsmTransition_get_cases [of w owner lit m inst])
     (simp_all add: register_transition_frame)

lemma FsmTransition_get_column_name:
  assumes "r < n_machines w"
  shows "column_name (machines (snd (FsmTransition_get lit m inst owner w)) r)
           = column_name (machines w r)"
  using assms
  by (cases rule: FsmTransition_get_cases [of w owner lit m inst])
     (simp_all add: register_transition_fields)

lemma run_op_class_dict:
  "class_dict w c = Some r \<Longrightarrow> class_dict (run_op lit op w) c = Some r"
  by (cases op)
     (simp_all add: register_state_frame register_transition_frame FsmTransition_get_class_dict)

lemma run_op_n_machines:
  "n_machines w \<le> n_machines (run_op lit op w)"
  by (cases op)
     (simp_all add: register_state_frame register_transition_frame FsmTransition_get_n_machines)

lemma run_op_column_name:
  "r < n_machines w \<Longrightarrow> column_name (machines (run_op lit op w) r) = column_name (machines w r)"
  by (cases op)
     (simp_all add: register_state_fields register_transition_fields FsmTransition_get_column_name)

lemma run_ops_class_dict:
  "class_dict w c = Some r \<Longrightarrow> class_dict (run_ops lit ops w) c = Some r"
  by (induction ops arbitrary: w) (simp_all add: run_op_class_dict)

lemma run_ops_column_name:
  "r < n_machines w \<Longrightarrow> column_name (machines (run_ops lit ops w) r) = column_name (machines w r)"
proof (induction ops arbitrary: w)
  case Nil
  show ?case by simp
next
  case (Cons op ops)
  from Cons.prems run_op_n_machines [of w lit op]
  have "r < n_machines (run_op lit op w)" by simp
  from Cons.IH [OF this] Cons.prems show ?case
    by (simp add: run_op_column_name)
qed

lemma access_appends:
  assumes "getattr_sa_fsm_sqlalchemy_handle (class_dict w) (cls_name owner # cls_bases owner) \<noteq> None
           \<or> length (filter col_is_fsm (cls_columns owner)) = 1"
  shows "\<exists>view w1. FsmTransition_get lit m inst owner w = (Inr view, w1)
           \<and> registry_transitions owner w1 = registry_transitions owner w @ [view_transition view]
           \<and> view_transition view = \<lparr>tr_id = next_id w, tr_parent = view_registry view, tr_meta = m\<rparr>
           \<and> getattr_sa_fsm_sqlalchemy_handle (class_dict w1) (cls_name owner # cls_bases owner)
               = Some (view_registry view)"
proof (cases "getattr_sa_fsm_sqlalchemy_handle (class_dict w) (cls_name owner # cls_bases owner)")
  case (Some root)
  from FsmTransition_get_ok [OF fsm_machine_root_of_found [OF Some], of lit m inst]
  obtain view where v:
    "FsmTransition_get lit m inst owner w = (Inr view, snd (register_transition lit root m w))"
    "view_registry view = root"
    "view_transition view = \<lparr>tr_id = next_id w, tr_parent = root, tr_meta = m\<rparr>"
    by auto
  have cd: "class_dict (snd (register_transition lit root m w)) = class_dict w"
    by (simp add: register_transition_frame)
  show ?thesis
    using v Some
    by (simp add: registry_transitions_def cd register_transition_transitions
        del: getattr_sa_fsm_sqlalchemy_handle.simps)
next
  case None
  with assms have "length (filter col_is_fsm (cls_columns owner)) = Suc 0" by simp
  then obtain col where "filter col_is_fsm (cls_columns owner) = [col]"
    using length_one_single by blast
  then have col: "find_fsm_column owner = Inr col"
    by (rule find_fsm_column_single)
  from FsmTransition_get_ok [OF fsm_machine_root_of_new [OF None col], of lit m inst]
  obtain view where v:
    "FsmTransition_get lit m inst owner w =
       (Inr view, snd (register_transition lit (n_machines w) m
           (w\<lparr>machines := (machines w)(n_machines w :=
                  \<lparr>table_class = cls_name owner, fsm_column = col, column_name = col_name col,
                   states = Map.empty, transitions = []\<rparr>),
              n_machines := Suc (n_machines w),
              class_dict := (class_dict w)(cls_name owner \<mapsto> n_machines w)\<rparr>)))"
    "view_registry view = n_machines w"
    "view_transition view = \<lparr>tr_id = next_id w, tr_parent = n_machines w, tr_meta = m\<rparr>"
    by auto
  let ?w' = "w\<lparr>machines := (machines w)(n_machines w :=
                  \<lparr>table_class = cls_name owner, fsm_column = col, column_name = col_name col,
                   states = Map.empty, transitions = []\<rparr>),
              n_machines := Suc (n_machines w),
              class_dict := (class_dict w)(cls_name owner \<mapsto> n_machines w)\<rparr>"
  have cd: "class_dict (snd (register_transition lit (n_machines w) m ?w'))
              = (class_dict w)(cls_name owner \<mapsto> n_machines w)"
    by (simp add: register_transition_frame)
  have g: "getattr_sa_fsm_sqlalchemy_handle ((class_dict w)(cls_name owner \<mapsto> n_machines w))
             (cls_name owner # cls_bases owner) = Some (n_machines w)"
    by simp
  have tr: "transitions (machines (snd (register_transition lit (n_machines w) m ?w')) (n_machines w))
              = [\<lparr>tr_id = next_id w, tr_parent = n_machines w, tr_meta = m\<rparr>]"
    by (simp add: register_transition_transitions)
  have before: "registry_transitions owner w = []"
    using None by (simp add: registry_transitions_def del: getattr_sa_fsm_sqlalchemy_handle.simps)
  have after: "registry_transitions owner (snd (register_transition lit (n_machines w) m ?w'))
                 = [\<lparr>tr_id = next_id w, tr_parent = n_machines w, tr_meta = m\<rparr>]"
    unfolding registry_transitions_def cd g using tr by simp
  show ?thesis
    using v before after cd g by (simp del: getattr_sa_fsm_sqlalchemy_handle.simps)
qed

lemma repeat_access_metas:
  assumes "getattr_sa_fsm_sqlalchemy_handle (class_dict w) (cls_name owner # cls_bases owner) \<noteq> None
           \<or> length (filter col_is_fsm (cls_columns owner)) = 1"
  shows "map tr_meta (registry_transitions owner (repeat_access lit m owner insts w))
           = map tr_meta (registry_transitions owner w) @ replicate (length insts) m"
  using assms
proof (induction insts arbitrary: w)
  case Nil
  show ?case by simp
next
  case (Cons inst insts)
  from access_appends [OF Cons.prems, of lit m inst]
  obtain view w1 where v:
    "FsmTransition_get lit m inst owner w = (Inr view, w1)"
    "registry_transitions owner w1 = registry_transitions owner w @ [view_transition view]"
    "view_transition view = \<lparr>tr_id = next_id w, tr_parent = view_registry view, tr_meta = m\<rparr>"
    "getattr_sa_fsm_sqlalchemy_handle (class_dict w1) (cls_name owner # cls_bases owner)
       = Some (view_registry view)"
    by blast
  from v(4) have "getattr_sa_fsm_sqlalchemy_handle (class_dict w1) (cls_name owner # cls_bases owner) \<noteq> None
           \<or> length (filter col_is_fsm (cls_columns owner)) = 1"
    by simp
  from Cons.IH [OF this] v(1,2,3) show ?case
    by (simp add: replicate_app_Cons_same)
qed

lemma count_meta_append:
  assumes "map tr_meta ys = map tr_meta xs @ replicate n m"
  shows "length (filter (\<lambda>t. tr_meta t = m) ys) = length (filter (\<lambda>t. tr_meta t = m) xs) + n"
proof -
  have c: "length (filter (\<lambda>t. tr_meta t = m) zs) = count_list (map tr_meta zs) m" for zs
    by (induction zs) simp_all
  have r: "count_list (replicate n m) m = n"
    by (induction n) simp_all
  show ?thesis
    unfolding c assms by (simp add: r)
qed

section \<open>Resolution of the state column\<close>

text \<open>
  The three outcomes of \<^verbatim>\<open>FiniteStateMachine.__init__\<close>: with no \<^verbatim>\<open>FSMField\<close> column it
  raises \<^verbatim>\<open>SetupError\<close>, with more than one it raises \<^verbatim>\<open>SetupError\<close> naming them, and with
  exactly one it succeeds, the new machine holds that column's name in the table
  (\<^verbatim>\<open>Column.name\<close>), and no later registration or attribute access, on any type, changes
  the name it holds.
\<close>

lemma FiniteStateMachine_init_outcomes:
  "(filter col_is_fsm (cls_columns tc) = [] \<longrightarrow>
      FiniteStateMachine_init tc w = (Inl (SetupError NoFSMField), w))
   \<and> (1 < length (filter col_is_fsm (cls_columns tc)) \<longrightarrow>
      FiniteStateMachine_init tc w
        = (Inl (SetupError (MultipleFSMFields (filter col_is_fsm (cls_columns tc)))), w))
   \<and> (\<forall>c. filter col_is_fsm (cls_columns tc) = [c] \<longrightarrow>
        (\<exists>w1. FiniteStateMachine_init tc w = (Inr (n_machines w), w1)
           \<and> (\<forall>ops. column_name (machines (run_ops lit ops w1) (n_machines w)) = col_name c)))"
proof (intro conjI impI allI)
  assume "filter col_is_fsm (cls_columns tc) = []"
  then show "FiniteStateMachine_init tc w = (Inl (SetupError NoFSMField), w)"
    by (simp add: FiniteStateMachine_init_def find_fsm_column_def)
next
  assume "1 < length (filter col_is_fsm (cls_columns tc))"
  then show "FiniteStateMachine_init tc w
        = (Inl (SetupError (MultipleFSMFields (filter col_is_fsm (cls_columns tc)))), w)"
    by (auto simp: FiniteStateMachine_init_def find_fsm_column_def Let_def)
next
  fix c
  assume "filter col_is_fsm (cls_columns tc) = [c]"
  then have col: "find_fsm_column tc = Inr c"
    by (rule find_fsm_column_single)
  let ?w1 = "w\<lparr>machines := (machines w)(n_machines w :=
                 \<lparr>table_class = cls_name tc, fsm_column = c, column_name = col_name c,
                  states = Map.empty, transitions = []\<rparr>),
             n_machines := Suc (n_machines w)\<rparr>"
  have init: "FiniteStateMachine_init tc w = (Inr (n_machines w), ?w1)"
    using col by (simp add: FiniteStateMachine_init_def)
  have "column_name (machines (run_ops lit ops ?w1) (n_machines w)) = col_name c" for ops
    using run_ops_column_name [of "n_machines w" ?w1 lit ops] by simp
  with init show "\<exists>w1. FiniteStateMachine_init tc w = (Inr (n_machines w), w1)
           \<and> (\<forall>ops. column_name (machines (run_ops lit ops w1) (n_machines w)) = col_name c)"
    by blast
qed

text \<open>
  Claim C4 on the code. \<^verbatim>\<open>__init__\<close> stores \<^verbatim>\<open>self.fsm_column.name\<close>, the column's name in
  the table, where the claim has the attribute's name. For \<open>Ticket\<close>, whose only
  \<^verbatim>\<open>FSMField\<close> is the attribute \<^verbatim>\<open>state\<close> on the column \<^verbatim>\<open>state_col\<close>, construction
  succeeds and the machine holds \<^verbatim>\<open>"state_col"\<close>; \<^verbatim>\<open>current_raw_value\<close> then asks the
  record, whose attribute \<^verbatim>\<open>state\<close> holds \<^verbatim>\<open>"draft"\<close>, for \<^verbatim>\<open>state_col\<close> and raises
  \<^verbatim>\<open>AttributeError\<close>.
\<close>

theorem stored_name_is_column_name:
  "\<exists>w1. FiniteStateMachine_init Ticket example_world = (Inr 0, w1)
      \<and> col_key (fsm_column (machines w1 0)) = ''state''
      \<and> column_name (machines w1 0) = ''state_col''
      \<and> instance_attrs w1 1 ''state'' = Some (PyStr ''draft'')
      \<and> current_raw_value \<lparr>cls_fsm = 0, bound_instance = 1\<rparr> w1
          = Inl (AttributeError ''state_col'')"
proof -
  have col: "find_fsm_column Ticket = Inr renamed_state_column"
    by (rule find_fsm_column_single)
       (simp add: Ticket_def renamed_state_column_def title_column_def)
  have n: "n_machines example_world = 0"
    by (simp add: example_world_def empty_world_def)
  let ?w1 = "example_world\<lparr>machines := (machines example_world)(0 :=
                 \<lparr>table_class = cls_name Ticket, fsm_column = renamed_state_column,
                  column_name = col_name renamed_state_column,
                  states = Map.empty, transitions = []\<rparr>),
             n_machines := Suc 0\<rparr>"
  have init: "FiniteStateMachine_init Ticket example_world = (Inr 0, ?w1)"
    using col n by (simp add: FiniteStateMachine_init_def)
  have key: "col_key (fsm_column (machines ?w1 0)) = ''state''"
    by (simp add: renamed_state_column_def)
  have name: "column_name (machines ?w1 0) = ''state_col''"
    by (simp add: renamed_state_column_def)
  have attrs: "instance_attrs ?w1 1 = [''state'' \<mapsto> PyStr ''draft'']"
    by (simp add: example_world_def)
  have held: "instance_attrs ?w1 1 ''state'' = Some (PyStr ''draft'')"
    unfolding attrs by simp
  have missing: "instance_attrs ?w1 1 ''state_col'' = None"
    unfolding attrs by simp
  have raw: "current_raw_value \<lparr>cls_fsm = 0, bound_instance = 1\<rparr> ?w1
               = Inl (AttributeError ''state_col'')"
    using name missing by (simp add: current_raw_value_def)
  from init key name held raw show ?thesis by blast
qed

section \<open>Registration of states and transitions\<close>

text \<open>
  Claim C5. \<^verbatim>\<open>register_state\<close> is idempotent: a second call with the same label returns
  the very object the first call returned (same identity and fields); and on a machine that
  starts with no states, after any sequence of \<^verbatim>\<open>register_state\<close> calls two state objects
  of the map with the same label are one object.
\<close>

theorem register_state_idempotent:
  "fst (register_state self label (snd (register_state self label w)))
     = fst (register_state self label w)
   \<and> (states (machines w self) = Map.empty \<longrightarrow>
        (\<forall>s1 s2. s1 \<in> ran (states (machines (register_state_calls self labels w) self))
                \<and> s2 \<in> ran (states (machines (register_state_calls self labels w) self))
                \<and> st_value s1 = st_value s2 \<longrightarrow> s1 = s2))"
proof
  show "fst (register_state self label (snd (register_state self label w)))
          = fst (register_state self label w)"
    by (cases "states (machines w self) label")
       (simp_all add: register_state_result register_state_states)
next
  show "states (machines w self) = Map.empty \<longrightarrow>
        (\<forall>s1 s2. s1 \<in> ran (states (machines (register_state_calls self labels w) self))
                \<and> s2 \<in> ran (states (machines (register_state_calls self labels w) self))
                \<and> st_value s1 = st_value s2 \<longrightarrow> s1 = s2)"
  proof (intro impI allI)
    fix s1 s2
    assume e: "states (machines w self) = Map.empty"
      and h: "s1 \<in> ran (states (machines (register_state_calls self labels w) self))
                \<and> s2 \<in> ran (states (machines (register_state_calls self labels w) self))
                \<and> st_value s1 = st_value s2"
    from e have "keyed_by_label (states (machines w self))"
      by (simp add: keyed_by_label_empty)
    then have "keyed_by_label (states (machines (register_state_calls self labels w) self))"
      by (rule register_state_calls_keyed)
    with h show "s1 = s2" by (blast intro: keyed_by_label_unique)
  qed
qed

text \<open>
  C5 on a fresh machine, registering \<^verbatim>\<open>"draft"\<close>, \<^verbatim>\<open>"review"\<close> and \<^verbatim>\<open>"draft"\<close> again.
\<close>

theorem register_state_idempotent_witness:
  "fst (register_state 0 (PyStr ''draft'') (snd (register_state 0 (PyStr ''draft'') empty_world)))
     = fst (register_state 0 (PyStr ''draft'') empty_world)
   \<and> states (machines empty_world 0) = Map.empty
   \<and> \<not> (\<exists>s1 s2.
          s1 \<in> ran (states (machines (register_state_calls 0
                   [PyStr ''draft'', PyStr ''review'', PyStr ''draft''] empty_world) 0))
        \<and> s2 \<in> ran (states (machines (register_state_calls 0
                   [PyStr ''draft'', PyStr ''review'', PyStr ''draft''] empty_world) 0))
        \<and> st_value s1 = st_value s2 \<and> s1 \<noteq> s2)"
proof -
  have e: "states (machines empty_world 0) = Map.empty"
    by (simp add: empty_world_def blank_machine_def)
  from register_state_idempotent
         [of 0 "PyStr ''draft''" empty_world "[PyStr ''draft'', PyStr ''review'', PyStr ''draft'']"] e
  show ?thesis by blast
qed

text \<open>
  Claim C6. After \<^verbatim>\<open>register_transition\<close>, every label among the sources and the target
  that \<^verbatim>\<open>is_valid_literal_state\<close> accepts has an entry in the machine's states; and when
  that predicate rejects the wildcard marker and the marker had no entry before the call,
  it has none after it.
\<close>

theorem register_transition_registers_literals:
  "(\<forall>a \<in> set (sources m @ [target m]). lit a \<longrightarrow>
       a \<in> dom (states (machines (snd (register_transition lit self m w)) self)))
   \<and> (\<not> lit WILDCARD \<longrightarrow> WILDCARD \<notin> dom (states (machines w self)) \<longrightarrow>
       WILDCARD \<notin> dom (states (machines (snd (register_transition lit self m w)) self)))"
  by (auto simp: register_transition_dom)

text \<open>
  C6 for the declaration with the wildcard source on a fresh machine.
\<close>

theorem register_transition_registers_literals_witness:
  "PyStr ''archived'' \<in> dom (states (machines
       (snd (register_transition spec_is_valid_literal_state 0 archive_meta empty_world)) 0))
   \<and> \<not> spec_is_valid_literal_state WILDCARD
   \<and> WILDCARD \<notin> dom (states (machines empty_world 0))
   \<and> WILDCARD \<notin> dom (states (machines
       (snd (register_transition spec_is_valid_literal_state 0 archive_meta empty_world)) 0))"
proof -
  have a: "\<not> spec_is_valid_literal_state WILDCARD"
    by (simp add: spec_is_valid_literal_state_def WILDCARD_def)
  have b: "WILDCARD \<notin> dom (states (machines empty_world 0))"
    by (simp add: empty_world_def blank_machine_def)
  have c: "PyStr ''archived'' \<in> set (sources archive_meta @ [target archive_meta])"
          "spec_is_valid_literal_state (PyStr ''archived'')"
    by (simp_all add: archive_meta_def spec_is_valid_literal_state_def)
  from register_transition_registers_literals
         [of archive_meta spec_is_valid_literal_state 0 empty_world] a b c
  show ?thesis by blast
qed

text \<open>
  Claim C9. On a machine that starts with no states and has gone through any sequence of
  \<^verbatim>\<open>register_state\<close> and \<^verbatim>\<open>register_transition\<close> calls: \<^verbatim>\<open>get_state\<close> raises \<^verbatim>\<open>KeyError\<close>
  for a label that none of the calls registered, returns the stored state object (whose
  value is the label) for a label that one of them registered, and \<^verbatim>\<open>current_state\<close> of
  a record whose raw value was never registered raises that \<^verbatim>\<open>KeyError\<close>.
\<close>

theorem get_state_key_error:
  assumes "states (machines w0 self) = Map.empty"
  shows "(label \<notin> set (registered_labels lit calls) \<longrightarrow>
            get_state self label (run_registry_calls lit self calls w0) = Inl (KeyError label))
       \<and> (label \<in> set (registered_labels lit calls) \<longrightarrow>
            (\<exists>s. get_state self label (run_registry_calls lit self calls w0) = Inr s
               \<and> states (machines (run_registry_calls lit self calls w0) self) label = Some s
               \<and> st_value s = label))
       \<and> (cls_fsm ib = self \<longrightarrow>
            current_raw_value ib (run_registry_calls lit self calls w0) = Inr label \<longrightarrow>
            label \<notin> set (registered_labels lit calls) \<longrightarrow>
            current_state ib (run_registry_calls lit self calls w0) = Inl (KeyError label))"
proof -
  let ?w = "run_registry_calls lit self calls w0"
  have d: "dom (states (machines ?w self)) = set (registered_labels lit calls)"
    using run_registry_calls_dom [of lit self calls w0] assms by simp
  have k: "keyed_by_label (states (machines ?w self))"
    by (rule run_registry_calls_keyed) (simp add: assms keyed_by_label_empty)
  have absent: "get_state self label ?w = Inl (KeyError label)"
    if "label \<notin> set (registered_labels lit calls)"
  proof -
    from that d have "states (machines ?w self) label = None" by blast
    then show ?thesis by (simp add: get_state_def)
  qed
  have present: "\<exists>s. get_state self label ?w = Inr s
               \<and> states (machines ?w self) label = Some s \<and> st_value s = label"
    if "label \<in> set (registered_labels lit calls)"
  proof -
    from that d obtain s where s: "states (machines ?w self) label = Some s" by blast
    with k have "st_value s = label" by (simp add: keyed_by_label_def)
    with s show ?thesis by (simp add: get_state_def)
  qed
  have cur: "current_state ib ?w = Inl (KeyError label)"
    if "cls_fsm ib = self" "current_raw_value ib ?w = Inr label"
       "label \<notin> set (registered_labels lit calls)"
    using that absent by (simp add: current_state_def)
  from absent present cur show ?thesis by blast
qed

text \<open>
  C9 on the machine of \<open>Document\<close> after registering the \<^verbatim>\<open>publish\<close> declaration: the
  label \<^verbatim>\<open>"archived"\<close> is unknown, \<^verbatim>\<open>"draft"\<close> is found, and the record holding
  \<^verbatim>\<open>"archived"\<close> has no current state.
\<close>

theorem get_state_key_error_witness:
  "get_state 0 (PyStr ''archived'')
     (run_registry_calls spec_is_valid_literal_state 0 [RegisterTransition publish_meta]
        (snd (FiniteStateMachine_init Document example_world)))
     = Inl (KeyError (PyStr ''archived''))
   \<and> (\<exists>s. get_state 0 (PyStr ''draft'')
            (run_registry_calls spec_is_valid_literal_state 0 [RegisterTransition publish_meta]
               (snd (FiniteStateMachine_init Document example_world))) = Inr s
         \<and> st_value s = PyStr ''draft'')
   \<and> current_raw_value \<lparr>cls_fsm = 0, bound_instance = 2\<rparr>
        (run_registry_calls spec_is_valid_literal_state 0 [RegisterTransition publish_meta]
           (snd (FiniteStateMachine_init Document example_world)))
       = Inr (PyStr ''archived'')
   \<and> current_state \<lparr>cls_fsm = 0, bound_instance = 2\<rparr>
        (run_registry_calls spec_is_valid_literal_state 0 [RegisterTransition publish_meta]
           (snd (FiniteStateMachine_init Document example_world)))
       = Inl (KeyError (PyStr ''archived''))"
proof -
  let ?start = "snd (FiniteStateMachine_init Document example_world)"
  let ?calls = "[RegisterTransition publish_meta]"
  let ?w = "run_registry_calls spec_is_valid_literal_state 0 ?calls ?start"
  let ?ib = "\<lparr>cls_fsm = 0, bound_instance = 2\<rparr>"
  have col: "find_fsm_column Document = Inr state_column"
    by (rule find_fsm_column_single) (simp add: Document_def state_column_def title_column_def)
  have n: "n_machines example_world = 0"
    by (simp add: example_world_def empty_world_def)
  have start: "?start = example_world\<lparr>machines := (machines example_world)(0 :=
                 \<lparr>table_class = cls_name Document, fsm_column = state_column,
                  column_name = col_name state_column,
                  states = Map.empty, transitions = []\<rparr>),
             n_machines := Suc 0\<rparr>"
    using col n by (simp add: FiniteStateMachine_init_def)
  have e: "states (machines ?start 0) = Map.empty"
    unfolding start by simp
  have w: "?w = snd (register_transition spec_is_valid_literal_state 0 publish_meta ?start)"
    by simp
  have cn: "column_name (machines ?w 0) = ''state''"
  proof -
    have "column_name (machines ?w 0) = column_name (machines ?start 0)"
      unfolding w by (rule register_transition_fields)
    then show ?thesis
      unfolding start by (simp add: state_column_def)
  qed
  have ia: "instance_attrs ?w 2 ''state'' = Some (PyStr ''archived'')"
  proof -
    have "instance_attrs ?w = instance_attrs ?start"
      unfolding w by (rule register_transition_frame)
    then show ?thesis
      unfolding start by (simp add: example_world_def)
  qed
  have raw: "current_raw_value ?ib ?w = Inr (PyStr ''archived'')"
    using cn ia by (simp add: current_raw_value_def)
  have labels: "registered_labels spec_is_valid_literal_state ?calls
                  = [PyStr ''draft'', PyStr ''review'', PyStr ''published'']"
    by (simp add: publish_meta_def spec_is_valid_literal_state_def)
  have absent: "PyStr ''archived'' \<notin> set (registered_labels spec_is_valid_literal_state ?calls)"
    unfolding labels by simp
  have present: "PyStr ''draft'' \<in> set (registered_labels spec_is_valid_literal_state ?calls)"
    unfolding labels by simp
  have fsm: "cls_fsm ?ib = 0"
    by simp
  note t1 = get_state_key_error [OF e, of "PyStr ''archived''" spec_is_valid_literal_state ?calls ?ib]
  note t2 = get_state_key_error [OF e, of "PyStr ''draft''" spec_is_valid_literal_state ?calls ?ib]
  from t1 absent have g1: "get_state 0 (PyStr ''archived'') ?w = Inl (KeyError (PyStr ''archived''))"
    by blast
  from t2 present have g2: "\<exists>s. get_state 0 (PyStr ''draft'') ?w = Inr s \<and> st_value s = PyStr ''draft''"
    by blast
  from t1 absent raw fsm have g3: "current_state ?ib ?w = Inl (KeyError (PyStr ''archived''))"
    by blast
  from g1 g2 raw g3 show ?thesis
    by blast
qed

section \<open>One registry per record type\<close>

text \<open>The world after the first access of \<^verbatim>\<open>Document.publish\<close>: one machine, held by \<open>Document\<close>.\<close>

lemma document_world_registry:
  "n_machines document_world = 1"
  "class_dict document_world = [''Document'' \<mapsto> 0]"
proof -
  have a: "getattr_sa_fsm_sqlalchemy_handle (class_dict empty_world)
             (cls_name Document # cls_bases Document) = None"
    by (simp add: empty_world_def Document_def)
  have col: "find_fsm_column Document = Inr state_column"
    by (rule find_fsm_column_single) (simp add: Document_def state_column_def title_column_def)
  let ?w' = "empty_world\<lparr>machines := (machines empty_world)(n_machines empty_world :=
                  \<lparr>table_class = cls_name Document, fsm_column = state_column,
                   column_name = col_name state_column,
                   states = Map.empty, transitions = []\<rparr>),
              n_machines := Suc (n_machines empty_world),
              class_dict := (class_dict empty_world)(cls_name Document \<mapsto> n_machines empty_world)\<rparr>"
  from FsmTransition_get_ok [OF fsm_machine_root_of_new [OF a col],
         of spec_is_valid_literal_state publish_meta None]
  have w: "document_world
             = snd (register_transition spec_is_valid_literal_state (n_machines empty_world)
                      publish_meta ?w')"
    unfolding document_world_def by auto
  show "n_machines document_world = 1"
    unfolding w register_transition_frame by (simp add: empty_world_def)
  show "class_dict document_world = [''Document'' \<mapsto> 0]"
    unfolding w register_transition_frame by (simp add: empty_world_def Document_def)
qed

text \<open>
  Claim C7 as stated, for every record type, fails in two ways. The first access on a type
  without an \<^verbatim>\<open>FSMField\<close> column raises \<^verbatim>\<open>SetupError\<close>, constructs no registry and stores
  nothing on the type. And the first access on \<open>Report\<close>, a subclass of \<open>Document\<close> with one
  \<^verbatim>\<open>FSMField\<close> column and nothing stored on it, made after \<open>Document\<close> has its registry,
  finds that registry through the base class: it succeeds on machine 0, constructs none and
  stores nothing on \<open>Report\<close>.
\<close>

theorem first_access_builds_no_registry:
  "fst (FsmTransition_get spec_is_valid_literal_state publish_meta None Plain empty_world)
     = Inl (SetupError NoFSMField)
   \<and> n_machines (snd (FsmTransition_get spec_is_valid_literal_state publish_meta None Plain
                         empty_world)) = 0
   \<and> class_dict (snd (FsmTransition_get spec_is_valid_literal_state publish_meta None Plain
                         empty_world)) (cls_name Plain) = None
   \<and> length (filter col_is_fsm (cls_columns Report)) = 1
   \<and> class_dict document_world (cls_name Report) = None
   \<and> n_machines document_world = 1
   \<and> (\<exists>view. fst (FsmTransition_get spec_is_valid_literal_state archive_meta None Report
                      document_world) = Inr view
          \<and> view_registry view = 0)
   \<and> n_machines (snd (FsmTransition_get spec_is_valid_literal_state archive_meta None Report
                         document_world)) = 1
   \<and> class_dict (snd (FsmTransition_get spec_is_valid_literal_state archive_meta None Report
                         document_world)) (cls_name Report) = None"
proof -
  have plain:
    "fst (FsmTransition_get spec_is_valid_literal_state publish_meta None Plain empty_world)
       = Inl (SetupError NoFSMField)
     \<and> n_machines (snd (FsmTransition_get spec_is_valid_literal_state publish_meta None Plain
                         empty_world)) = 0
     \<and> class_dict (snd (FsmTransition_get spec_is_valid_literal_state publish_meta None Plain
                         empty_world)) (cls_name Plain) = None"
    by (simp add: FsmTransition_get_def fsm_machine_root_of_def FiniteStateMachine_init_def
        find_fsm_column_def Plain_def title_column_def empty_world_def)
  have one: "length (filter col_is_fsm (cls_columns Report)) = 1"
    by (simp add: Report_def title_column_def state_column_def)
  have own: "class_dict document_world (cls_name Report) = None"
    by (simp add: document_world_registry Report_def)
  have found: "getattr_sa_fsm_sqlalchemy_handle (class_dict document_world)
                 (cls_name Report # cls_bases Report) = Some 0"
    by (simp add: document_world_registry Report_def)
  from FsmTransition_get_ok [OF fsm_machine_root_of_found [OF found],
         of spec_is_valid_literal_state archive_meta None]
  obtain view where v:
    "FsmTransition_get spec_is_valid_literal_state archive_meta None Report document_world
       = (Inr view, snd (register_transition spec_is_valid_literal_state 0 archive_meta
                           document_world))"
    "view_registry view = 0"
    by auto
  have access: "\<exists>view. fst (FsmTransition_get spec_is_valid_literal_state archive_meta None Report
                      document_world) = Inr view \<and> view_registry view = 0"
    using v by simp
  have after:
    "n_machines (snd (FsmTransition_get spec_is_valid_literal_state archive_meta None Report
                         document_world)) = 1"
    "class_dict (snd (FsmTransition_get spec_is_valid_literal_state archive_meta None Report
                         document_world)) (cls_name Report) = None"
    unfolding v(1) by (simp_all add: register_transition_frame document_world_registry Report_def)
  from plain one own document_world_registry(1) access after show ?thesis
    by blast
qed

text \<open>
  Claim C7, amended. On a record type with exactly one \<^verbatim>\<open>FSMField\<close> column on which the
  lookup of \<^verbatim>\<open>_sa_fsm_sqlalchemy_handle\<close> finds nothing, neither on the type nor on a base
  class, the first access of an annotated attribute succeeds, constructs exactly one
  machine and stores it on the type itself;
  after any further run, every access of any annotated attribute on that type succeeds,
  constructs no machine and is bound to that same machine.
\<close>

theorem registry_built_once_then_reused:
  assumes "getattr_sa_fsm_sqlalchemy_handle (class_dict w) (cls_name owner # cls_bases owner) = None"
      and "length (filter col_is_fsm (cls_columns owner)) = 1"
  shows "\<exists>view w1. FsmTransition_get lit m inst owner w = (Inr view, w1)
           \<and> n_machines w1 = Suc (n_machines w)
           \<and> class_dict w1 (cls_name owner) = Some (n_machines w)
           \<and> view_registry view = n_machines w
           \<and> (\<forall>ops m2 inst2. \<exists>view2 w3.
                 FsmTransition_get lit m2 inst2 owner (run_ops lit ops w1) = (Inr view2, w3)
                 \<and> view_registry view2 = n_machines w
                 \<and> n_machines w3 = n_machines (run_ops lit ops w1)
                 \<and> class_dict w3 (cls_name owner) = Some (n_machines w))"
proof -
  from assms(2) obtain col where "filter col_is_fsm (cls_columns owner) = [col]"
    using length_one_single by auto
  then have col: "find_fsm_column owner = Inr col"
    by (rule find_fsm_column_single)
  let ?w' = "w\<lparr>machines := (machines w)(n_machines w :=
                  \<lparr>table_class = cls_name owner, fsm_column = col, column_name = col_name col,
                   states = Map.empty, transitions = []\<rparr>),
              n_machines := Suc (n_machines w),
              class_dict := (class_dict w)(cls_name owner \<mapsto> n_machines w)\<rparr>"
  let ?w1 = "snd (register_transition lit (n_machines w) m ?w')"
  from FsmTransition_get_ok [OF fsm_machine_root_of_new [OF assms(1) col], of lit m inst]
  obtain view where v:
    "FsmTransition_get lit m inst owner w = (Inr view, ?w1)"
    "view_registry view = n_machines w"
    by auto
  have n1: "n_machines ?w1 = Suc (n_machines w)"
    by (simp add: register_transition_frame)
  have c1: "class_dict ?w1 (cls_name owner) = Some (n_machines w)"
    by (simp add: register_transition_frame)
  have later: "\<exists>view2 w3.
                 FsmTransition_get lit m2 inst2 owner (run_ops lit ops ?w1) = (Inr view2, w3)
                 \<and> view_registry view2 = n_machines w
                 \<and> n_machines w3 = n_machines (run_ops lit ops ?w1)
                 \<and> class_dict w3 (cls_name owner) = Some (n_machines w)" for ops m2 inst2
  proof -
    let ?w2 = "run_ops lit ops ?w1"
    have c2: "class_dict ?w2 (cls_name owner) = Some (n_machines w)"
      using c1 by (rule run_ops_class_dict)
    then have g: "getattr_sa_fsm_sqlalchemy_handle (class_dict ?w2) (cls_name owner # cls_bases owner)
                    = Some (n_machines w)"
      by (rule getattr_own)
    from FsmTransition_get_ok [OF fsm_machine_root_of_found [OF g], of lit m2 inst2]
    obtain view2 where v2:
      "FsmTransition_get lit m2 inst2 owner ?w2
         = (Inr view2, snd (register_transition lit (n_machines w) m2 ?w2))"
      "view_registry view2 = n_machines w"
      by auto
    show ?thesis
      using v2 c2 by (simp add: register_transition_frame)
  qed
  from v n1 c1 later show ?thesis by blast
qed

text \<open>
  C7 on \<open>Document\<close>: the first access builds machine 0; after an access on another type
  and a registration, another declaration accessed on a record of \<open>Document\<close> is bound to
  machine 0 again.
\<close>

theorem registry_built_once_then_reused_witness:
  "\<exists>view w1. FsmTransition_get spec_is_valid_literal_state publish_meta None Document empty_world
                = (Inr view, w1)
      \<and> n_machines w1 = 1
      \<and> class_dict w1 ''Document'' = Some 0
      \<and> view_registry view = 0
      \<and> (\<exists>view2 w3. FsmTransition_get spec_is_valid_literal_state archive_meta (Some 1) Document
             (run_ops spec_is_valid_literal_state
                [Access publish_meta None TwoFields, CallRegisterState 0 (PyStr ''draft'')] w1)
               = (Inr view2, w3)
           \<and> view_registry view2 = 0
           \<and> n_machines w3 = n_machines (run_ops spec_is_valid_literal_state
                [Access publish_meta None TwoFields, CallRegisterState 0 (PyStr ''draft'')] w1)
           \<and> class_dict w3 ''Document'' = Some 0)"
proof -
  have a: "getattr_sa_fsm_sqlalchemy_handle (class_dict empty_world)
             (cls_name Document # cls_bases Document) = None"
    by (simp add: empty_world_def Document_def)
  have b: "length (filter col_is_fsm (cls_columns Document)) = 1"
    by (simp add: Document_def state_column_def title_column_def)
  have n: "n_machines empty_world = 0" "cls_name Document = ''Document''"
    by (simp_all add: empty_world_def Document_def)
  from registry_built_once_then_reused
         [OF a b, of spec_is_valid_literal_state publish_meta None]
  obtain view w1 where v:
    "FsmTransition_get spec_is_valid_literal_state publish_meta None Document empty_world
       = (Inr view, w1)"
    "n_machines w1 = Suc (n_machines empty_world)"
    "class_dict w1 (cls_name Document) = Some (n_machines empty_world)"
    "view_registry view = n_machines empty_world"
    "\<And>ops m2 inst2. \<exists>view2 w3.
        FsmTransition_get spec_is_valid_literal_state m2 inst2 Document
          (run_ops spec_is_valid_literal_state ops w1) = (Inr view2, w3)
        \<and> view_registry view2 = n_machines empty_world
        \<and> n_machines w3 = n_machines (run_ops spec_is_valid_literal_state ops w1)
        \<and> class_dict w3 (cls_name Document) = Some (n_machines empty_world)"
    by blast
  from v(5) [of archive_meta "Some 1"
               "[Access publish_meta None TwoFields, CallRegisterState 0 (PyStr ''draft'')]"]
       v(1-4)
  show ?thesis unfolding n by simp
qed

section \<open>Transitions recorded per access\<close>

text \<open>
  Claim C10 as stated, for every access, fails: on a type with two \<^verbatim>\<open>FSMField\<close> columns
  and no registry to be found, each access raises before \<^verbatim>\<open>register_transition\<close> runs, so three accesses leave the world
  as it was, with no transition recorded.
\<close>

theorem repeated_access_without_fsm_field:
  "registry_transitions TwoFields
     (repeat_access spec_is_valid_literal_state publish_meta TwoFields [None, None, None] empty_world)
     = []
   \<and> repeat_access spec_is_valid_literal_state publish_meta TwoFields [None, None, None] empty_world
       = empty_world"
proof -
  have "FsmTransition_get spec_is_valid_literal_state publish_meta None TwoFields empty_world
          = (Inl (SetupError (MultipleFSMFields [state_column, status_column])), empty_world)"
    by (simp add: FsmTransition_get_def fsm_machine_root_of_def FiniteStateMachine_init_def
        find_fsm_column_def TwoFields_def state_column_def status_column_def empty_world_def)
  then have "repeat_access spec_is_valid_literal_state publish_meta TwoFields [None, None, None]
               empty_world = empty_world"
    by simp
  moreover have "registry_transitions TwoFields empty_world = []"
    by (simp add: registry_transitions_def empty_world_def TwoFields_def)
  ultimately show ?thesis by simp
qed

text \<open>
  Claim C10, amended. On a record type for which the lookup finds a registry, its own or a
  base class's, or which has exactly one \<^verbatim>\<open>FSMField\<close> column, every access of an annotated attribute succeeds and appends one
  transition object of fresh identity, holding the declaration's meta, to the registry's
  transitions; so \<open>n\<close> accesses of one declaration add \<open>n\<close> entries holding its meta.
\<close>

theorem access_appends_one_transition:
  assumes "getattr_sa_fsm_sqlalchemy_handle (class_dict w) (cls_name owner # cls_bases owner) \<noteq> None
           \<or> length (filter col_is_fsm (cls_columns owner)) = 1"
  shows "(\<exists>view w1. FsmTransition_get lit m inst owner w = (Inr view, w1)
            \<and> registry_transitions owner w1 = registry_transitions owner w @ [view_transition view]
            \<and> tr_meta (view_transition view) = m
            \<and> tr_id (view_transition view) = next_id w)
       \<and> length (filter (\<lambda>t. tr_meta t = m)
            (registry_transitions owner (repeat_access lit m owner insts w)))
           = length (filter (\<lambda>t. tr_meta t = m) (registry_transitions owner w)) + length insts"
proof
  from access_appends [OF assms, of lit m inst]
  obtain view w1 where
    "FsmTransition_get lit m inst owner w = (Inr view, w1)"
    "registry_transitions owner w1 = registry_transitions owner w @ [view_transition view]"
    "view_transition view = \<lparr>tr_id = next_id w, tr_parent = view_registry view, tr_meta = m\<rparr>"
    by blast
  then show "\<exists>view w1. FsmTransition_get lit m inst owner w = (Inr view, w1)
            \<and> registry_transitions owner w1 = registry_transitions owner w @ [view_transition view]
            \<and> tr_meta (view_transition view) = m
            \<and> tr_id (view_transition view) = next_id w"
    by simp
next
  show "length (filter (\<lambda>t. tr_meta t = m)
            (registry_transitions owner (repeat_access lit m owner insts w)))
           = length (filter (\<lambda>t. tr_meta t = m) (registry_transitions owner w)) + length insts"
    by (rule count_meta_append) (rule repeat_access_metas [OF assms])
qed

text \<open>
  C10 on \<open>Document\<close>: one access leaves one entry, three accesses leave three.
\<close>

theorem access_appends_one_transition_witness:
  "(\<exists>view w1. FsmTransition_get spec_is_valid_literal_state publish_meta (Some 1) Document empty_world
                 = (Inr view, w1)
       \<and> registry_transitions Document w1 = [view_transition view]
       \<and> tr_meta (view_transition view) = publish_meta
       \<and> tr_id (view_transition view) = 0)
   \<and> length (filter (\<lambda>t. tr_meta t = publish_meta)
        (registry_transitions Document
           (repeat_access spec_is_valid_literal_state publish_meta Document [None, Some 1, None]
              empty_world))) = 3"
proof -
  have b: "getattr_sa_fsm_sqlalchemy_handle (class_dict empty_world)
             (cls_name Document # cls_bases Document) \<noteq> None
           \<or> length (filter col_is_fsm (cls_columns Document)) = 1"
    by (simp add: Document_def state_column_def title_column_def)
  have e: "registry_transitions Document empty_world = []" "next_id empty_world = 0"
    by (simp_all add: registry_transitions_def empty_world_def Document_def)
  from access_appends_one_transition
         [OF b, of spec_is_valid_literal_state publish_meta "Some 1" "[None, Some 1, None]"]
  show ?thesis unfolding e by simp
qed

section \<open>Bound views\<close>

lemma FsmTransition_get_on_instance:
  assumes "fsm_machine_root_of owner w = (Inr root, w1)"
  shows "FsmTransition_get lit m (Some i) owner w =
           (Inr (InstanceBound (InstanceBoundFsmTransition_init root
                   (fst (register_transition lit root m w1)) (cls_name owner) i)),
            snd (register_transition lit root m w1))"
  using assms by (simp add: FsmTransition_get_def split: prod.split)

lemma FsmTransition_get_on_class:
  assumes "fsm_machine_root_of owner w = (Inr root, w1)"
  shows "FsmTransition_get lit m None owner w =
           (Inr (ClassBound (ClassBoundFsmTransition_init root
                   (fst (register_transition lit root m w1)) (cls_name owner))),
            snd (register_transition lit root m w1))"
  using assms by (simp add: FsmTransition_get_def split: prod.split)

lemma Document_first_root:
  "\<exists>w1. fsm_machine_root_of Document example_world = (Inr 0, w1)
        \<and> instance_attrs w1 = instance_attrs example_world"
proof -
  have a: "getattr_sa_fsm_sqlalchemy_handle (class_dict example_world)
             (cls_name Document # cls_bases Document) = None"
    by (simp add: example_world_def empty_world_def Document_def)
  have b: "find_fsm_column Document = Inr state_column"
    by (rule find_fsm_column_single) (simp add: Document_def state_column_def title_column_def)
  have n: "n_machines example_world = 0"
    by (simp add: example_world_def empty_world_def)
  show ?thesis
    using fsm_machine_root_of_new [OF a b] n by simp
qed

lemma set_after_init:
  "InstanceBoundFsmTransition_set (InstanceBoundFsmTransition_init root tr oc i) args w
     = (Inl (AttributeError ''_sa_fsm_bound_meta''), w)"
  by (simp add: InstanceBoundFsmTransition_set_def InstanceBoundFsmTransition_init_def)

lemma can_proceed_after_init:
  "InstanceBoundFsmTransition_can_proceed (InstanceBoundFsmTransition_init root tr oc i) args w
     = Inl (AttributeError ''_sa_fsm_bound_meta'')"
  by (simp add: InstanceBoundFsmTransition_can_proceed_def InstanceBoundFsmTransition_init_def)

lemma call_after_init:
  "ClassBoundFsmTransition_call (ClassBoundFsmTransition_init root tr oc) w
     = (Inl (AttributeError ''_sa_fsm_sqla_handle''), w)"
  by (simp add: ClassBoundFsmTransition_call_def ClassBoundFsmTransition_init_def)

lemma is_after_init:
  "ClassBoundFsmTransition_is (ClassBoundFsmTransition_init root tr oc) (PyBool b) w
     = (Inl (AttributeError ''_sa_fsm_sqla_handle''), w)"
  by (simp add: ClassBoundFsmTransition_is_def call_after_init)

text \<open>
  With an argument that is not a boolean, \<^verbatim>\<open>is_\<close> warns and returns \<^verbatim>\<open>False\<close>, whatever
  the view holds.
\<close>

lemma is_non_boolean:
  "ClassBoundFsmTransition_is self PyNone w = (Inr (OutBool False), w\<lparr>warnings := warnings w @ [PyNone]\<rparr>)"
  "ClassBoundFsmTransition_is self (PyStr s) w
     = (Inr (OutBool False), w\<lparr>warnings := warnings w @ [PyStr s]\<rparr>)"
  by (simp_all add: ClassBoundFsmTransition_is_def)

text \<open>
  What \<^verbatim>\<open>set\<close> does on a view that carries both attributes: the order of the two checks
  and the result of the handler passed through.
\<close>

lemma set_with_attributes:
  assumes "ib_sa_fsm_bound_meta self = Some bm" "ib_sa_fsm_transition_fn self = Some func"
  shows "InstanceBoundFsmTransition_set self args w =
           (if \<not> transition_possible bm w then
              (case bm_current_state bm w of
                 Inl e \<Rightarrow> (Inl e, w)
               | Inr cur \<Rightarrow> (Inl (InvalidSourceStateError cur (fn_name func)), w))
            else if \<not> conditions_met bm args w then
              (Inl (PreconditionError ''Preconditions are not satisfied.''), w)
            else to_next_state bm args w)"
  using assms by (simp add: InstanceBoundFsmTransition_set_def)

text \<open>
  Claim C1 on the code. \<^verbatim>\<open>set\<close> starts by reading \<^verbatim>\<open>self._sa_fsm_bound_meta\<close>, which
  \<^verbatim>\<open>InstanceBoundFsmTransition.__init__\<close> never assigns: on every view that the constructor
  builds, and so on the view that \<^verbatim>\<open>__get__\<close> returns for the record of \<open>Document\<close> in
  state \<^verbatim>\<open>"draft"\<close>, \<^verbatim>\<open>set\<close> raises \<^verbatim>\<open>AttributeError\<close> before any check is made, and the
  world is as it was.
\<close>

theorem set_raises_attribute_error:
  "(\<forall>root tr oc i args w.
      InstanceBoundFsmTransition_set (InstanceBoundFsmTransition_init root tr oc i) args w
        = (Inl (AttributeError ''_sa_fsm_bound_meta''), w))
   \<and> (\<exists>v w1. FsmTransition_get spec_is_valid_literal_state publish_meta (Some 1) Document
                 example_world = (Inr (InstanceBound v), w1)
         \<and> instance_attrs w1 1 ''state'' = Some (PyStr ''draft'')
         \<and> InstanceBoundFsmTransition_set v ([], []) w1
             = (Inl (AttributeError ''_sa_fsm_bound_meta''), w1))"
proof -
  from Document_first_root obtain w1 where
    r: "fsm_machine_root_of Document example_world = (Inr 0, w1)"
    and i: "instance_attrs w1 = instance_attrs example_world"
    by blast
  have "instance_attrs example_world 1 ''state'' = Some (PyStr ''draft'')"
    by (simp add: example_world_def)
  with i have "instance_attrs (snd (register_transition spec_is_valid_literal_state 0 publish_meta w1))
                 1 ''state'' = Some (PyStr ''draft'')"
    by (simp add: register_transition_frame)
  with FsmTransition_get_on_instance [OF r, of spec_is_valid_literal_state publish_meta 1]
  show ?thesis
    by (simp add: set_after_init)
qed

text \<open>
  Claim C2 on the code. \<^verbatim>\<open>can_proceed\<close> reads the same unassigned attribute: on every view
  that the constructor builds it raises \<^verbatim>\<open>AttributeError\<close> and returns no boolean, also for
  the record in state \<^verbatim>\<open>"draft"\<close> and the declaration with source \<^verbatim>\<open>"draft"\<close>.
\<close>

theorem can_proceed_raises_attribute_error:
  "(\<forall>root tr oc i args w.
      InstanceBoundFsmTransition_can_proceed (InstanceBoundFsmTransition_init root tr oc i) args w
        = Inl (AttributeError ''_sa_fsm_bound_meta''))
   \<and> (\<exists>v w1. FsmTransition_get spec_is_valid_literal_state publish_meta (Some 1) Document
                 example_world = (Inr (InstanceBound v), w1)
         \<and> instance_attrs w1 1 ''state'' = Some (PyStr ''draft'')
         \<and> InstanceBoundFsmTransition_can_proceed v ([], []) w1
             = Inl (AttributeError ''_sa_fsm_bound_meta''))"
proof -
  from Document_first_root obtain w1 where
    r: "fsm_machine_root_of Document example_world = (Inr 0, w1)"
    and i: "instance_attrs w1 = instance_attrs example_world"
    by blast
  have "instance_attrs example_world 1 ''state'' = Some (PyStr ''draft'')"
    by (simp add: example_world_def)
  with i have "instance_attrs (snd (register_transition spec_is_valid_literal_state 0 publish_meta w1))
                 1 ''state'' = Some (PyStr ''draft'')"
    by (simp add: register_transition_frame)
  with FsmTransition_get_on_instance [OF r, of spec_is_valid_literal_state publish_meta 1]
  show ?thesis
    by (simp add: can_proceed_after_init)
qed

text \<open>
  Claim C3 on the code. \<^verbatim>\<open>__call__\<close> of the class-bound view reads
  \<^verbatim>\<open>self._sa_fsm_sqla_handle\<close>, which \<^verbatim>\<open>ClassBoundFsmTransition.__init__\<close> never assigns: on
  every view that the constructor builds, and so on the one \<^verbatim>\<open>__get__\<close> returns for
  \<open>Document\<close>, it raises \<^verbatim>\<open>AttributeError\<close> and the predicate cache is not consulted.
\<close>

theorem call_raises_attribute_error:
  "(\<forall>root tr oc w.
      ClassBoundFsmTransition_call (ClassBoundFsmTransition_init root tr oc) w
        = (Inl (AttributeError ''_sa_fsm_sqla_handle''), w))
   \<and> (\<exists>v w1. FsmTransition_get spec_is_valid_literal_state publish_meta None Document
                 example_world = (Inr (ClassBound v), w1)
         \<and> ClassBoundFsmTransition_call v w1 = (Inl (AttributeError ''_sa_fsm_sqla_handle''), w1))"
proof -
  from Document_first_root obtain w1 where
    r: "fsm_machine_root_of Document example_world = (Inr 0, w1)"
    by blast
  from FsmTransition_get_on_class [OF r, of spec_is_valid_literal_state publish_meta]
  show ?thesis
    by (simp add: call_after_init)
qed

text \<open>
  Claim C8 on the code. With a boolean argument \<^verbatim>\<open>is_\<close> calls \<^verbatim>\<open>self()\<close> first, so on every
  view that the constructor builds it raises the \<^verbatim>\<open>AttributeError\<close> of \<^verbatim>\<open>__call__\<close>; with
  the string \<^verbatim>\<open>"published"\<close> it warns and returns \<^verbatim>\<open>False\<close>.
\<close>

theorem is_raises_attribute_error:
  "(\<forall>root tr oc b w.
      ClassBoundFsmTransition_is (ClassBoundFsmTransition_init root tr oc) (PyBool b) w
        = (Inl (AttributeError ''_sa_fsm_sqla_handle''), w))
   \<and> (\<exists>v w1. FsmTransition_get spec_is_valid_literal_state publish_meta None Document
                 example_world = (Inr (ClassBound v), w1)
         \<and> ClassBoundFsmTransition_is v (PyBool True) w1
             = (Inl (AttributeError ''_sa_fsm_sqla_handle''), w1)
         \<and> ClassBoundFsmTransition_is v (PyStr ''published'') w1
             = (Inr (OutBool False), w1\<lparr>warnings := warnings w1 @ [PyStr ''published'']\<rparr>))"
proof -
  from Document_first_root obtain w1 where
    r: "fsm_machine_root_of Document example_world = (Inr 0, w1)"
    by blast
  from FsmTransition_get_on_class [OF r, of spec_is_valid_literal_state publish_meta]
  show ?thesis
    by (simp add: is_after_init is_non_boolean)
qed

end
